theory Spec2Isabelle
  imports Main
begin

section \<open>The hooks module of surgishop\_workspaces\<close>

text \<open>
  The repository is one Python module, \<^verbatim>\<open>surgishop_workspaces/hooks.py\<close>. Its
  executable text is seven assignments of literals (lines 1 to 7); every other line is
  blank or a comment. The module is embedded as the list of its statements, and
  "evaluating the module" is the execution of that list by a small interpreter for the
  statement and expression forms of Python a hooks file is written in.
\<close>

subsection \<open>Values, expressions and statements\<close>

text \<open>
  Python values that can occur: \<^verbatim>\<open>str\<close>, \<^verbatim>\<open>list\<close>, and the module object an
  \<^verbatim>\<open>import\<close> binds.
\<close>

datatype pyval = VStr string | VList "pyval list" | VModule string

datatype expr =
    StrLit string
  | ListLit "expr list"
  | Name string
  | Call expr "expr list"

datatype stmt =
    Assign string expr
  | Import string
  | ExprStmt expr

datatype error = NameError string | TypeError | ModuleNotFoundError string

text \<open>The module's namespace: its global bindings, from names to values.\<close>

type_synonym namespace = "string \<rightharpoonup> pyval"

text \<open>
  What lies outside the module and could be read while it runs: the builtins a free
  name falls back to, and the modules an \<^verbatim>\<open>import\<close> can find.
\<close>

record environment =
  builtins :: "string \<rightharpoonup> pyval"
  importable :: "string set"

subsection \<open>Evaluation\<close>

text \<open>
  Expressions evaluate left to right; the first exception raised is the result.
  A name is looked up in the module's namespace, then in the builtins, and raises
  \<^verbatim>\<open>NameError\<close> when it is in neither. No value of \<^typ>\<open>pyval\<close> is callable, so a
  call evaluates the callee and the arguments and then raises \<^verbatim>\<open>TypeError\<close>.
\<close>

fun eval_expr :: "environment \<Rightarrow> namespace \<Rightarrow> expr \<Rightarrow> error + pyval"
  and eval_exprs :: "environment \<Rightarrow> namespace \<Rightarrow> expr list \<Rightarrow> error + pyval list"
where
  "eval_expr env ns (StrLit s) = Inr (VStr s)"
| "eval_expr env ns (ListLit es) =
     (case eval_exprs env ns es of Inl e \<Rightarrow> Inl e | Inr vs \<Rightarrow> Inr (VList vs))"
| "eval_expr env ns (Name x) =
     (case ns x of
        Some v \<Rightarrow> Inr v
      | None \<Rightarrow> (case builtins env x of Some v \<Rightarrow> Inr v | None \<Rightarrow> Inl (NameError x)))"
| "eval_expr env ns (Call f args) =
     (case eval_expr env ns f of
        Inl e \<Rightarrow> Inl e
      | Inr c \<Rightarrow> (case eval_exprs env ns args of Inl e \<Rightarrow> Inl e | Inr vs \<Rightarrow> Inl TypeError))"
| "eval_exprs env ns [] = Inr []"
| "eval_exprs env ns (e # es) =
     (case eval_expr env ns e of
        Inl err \<Rightarrow> Inl err
      | Inr v \<Rightarrow> (case eval_exprs env ns es of Inl err \<Rightarrow> Inl err | Inr vs \<Rightarrow> Inr (v # vs)))"

fun exec_stmt :: "environment \<Rightarrow> namespace \<Rightarrow> stmt \<Rightarrow> error + namespace" where
  "exec_stmt env ns (Assign x e) =
     (case eval_expr env ns e of Inl err \<Rightarrow> Inl err | Inr v \<Rightarrow> Inr (ns(x \<mapsto> v)))"
| "exec_stmt env ns (Import m) =
     (if m \<in> importable env then Inr (ns(m \<mapsto> VModule m)) else Inl (ModuleNotFoundError m))"
| "exec_stmt env ns (ExprStmt e) =
     (case eval_expr env ns e of Inl err \<Rightarrow> Inl err | Inr v \<Rightarrow> Inr ns)"

text \<open>A module body runs statement by statement and stops at the first exception.\<close>

fun exec_stmts :: "environment \<Rightarrow> namespace \<Rightarrow> stmt list \<Rightarrow> error + namespace" where
  "exec_stmts env ns [] = Inr ns"
| "exec_stmts env ns (s # ss) =
     (case exec_stmt env ns s of Inl err \<Rightarrow> Inl err | Inr ns' \<Rightarrow> exec_stmts env ns' ss)"

text \<open>Evaluating a module runs its body in a fresh namespace.\<close>

definition exec_module :: "environment \<Rightarrow> stmt list \<Rightarrow> error + namespace" where
  "exec_module env body = exec_stmts env Map.empty body"

subsection \<open>The module\<close>

text \<open>Lines 1 to 7 of \<^verbatim>\<open>hooks.py\<close>, in order.\<close>

definition hooks :: "stmt list" where
  "hooks =
    [ Assign ''app_name'' (StrLit ''surgishop_workspaces''),
      Assign ''app_title'' (StrLit ''SurgiShop Workspaces''),
      Assign ''app_publisher'' (StrLit ''SurgiShop''),
      Assign ''app_description'' (StrLit ''Custom workspaces for SurgiShop ERPNext''),
      Assign ''app_email'' (StrLit ''gary@surgishop.com''),
      Assign ''app_license'' (StrLit ''mit''),
      Assign ''required_apps'' (ListLit [StrLit ''erpnext'']) ]"

text \<open>
  Lines 9 to 228 are comments. These are the names on the left of the assignments that
  are commented out there, in the order of the file.
\<close>

definition commented_out_names :: "string list" where
  "commented_out_names =
    [ ''app_include_css'', ''app_include_js'', ''web_include_css'', ''web_include_js'',
      ''website_theme_scss'', ''webform_include_js'', ''webform_include_css'', ''page_js'',
      ''doctype_js'', ''doctype_list_js'', ''doctype_tree_js'', ''doctype_calendar_js'',
      ''app_include_icons'', ''home_page'', ''role_home_page'', ''generators'', ''jinja'',
      ''before_install'', ''after_install'', ''before_uninstall'', ''after_uninstall'',
      ''before_app_install'', ''after_app_install'', ''before_app_uninstall'',
      ''after_app_uninstall'', ''notification_config'', ''permission_query_conditions'',
      ''has_permission'', ''override_doctype_class'', ''doc_events'', ''scheduler_events'',
      ''before_tests'', ''override_whitelisted_methods'', ''override_doctype_dashboards'',
      ''auto_cancel_exempted_doctypes'', ''ignore_links_on_delete'', ''before_request'',
      ''after_request'', ''before_job'', ''after_job'', ''user_data_fields'', ''auth_hooks'',
      ''export_python_type_annotations'', ''default_log_clearing_doctypes'' ]"

subsection \<open>Syntactic classes\<close>

text \<open>
  A literal is a string literal or a list display of literals: no name, no call.
  A literal assignment binds a name to a literal.
\<close>

fun is_literal :: "expr \<Rightarrow> bool"
  and are_literals :: "expr list \<Rightarrow> bool"
where
  "is_literal (StrLit s) = True"
| "is_literal (ListLit es) = are_literals es"
| "is_literal (Name x) = False"
| "is_literal (Call f args) = False"
| "are_literals [] = True"
| "are_literals (e # es) = (is_literal e \<and> are_literals es)"

fun is_literal_assign :: "stmt \<Rightarrow> bool" where
  "is_literal_assign (Assign x e) = is_literal e"
| "is_literal_assign (Import m) = False"
| "is_literal_assign (ExprStmt e) = False"

fun literal_assigns_only :: "stmt list \<Rightarrow> bool" where
  "literal_assigns_only [] = True"
| "literal_assigns_only (s # ss) = (is_literal_assign s \<and> literal_assigns_only ss)"

text \<open>Whether a name is bound to a \<^verbatim>\<open>str\<close> in a namespace.\<close>

fun is_str :: "pyval \<Rightarrow> bool" where
  "is_str (VStr s) = True"
| "is_str (VList vs) = False"
| "is_str (VModule m) = False"

definition str_bound :: "namespace \<Rightarrow> string \<Rightarrow> bool" where
  "str_bound ns x = (case ns x of None \<Rightarrow> False | Some v \<Rightarrow> is_str v)"

section \<open>Properties of literal modules\<close>

text \<open>
  A literal evaluates to a value whatever the environment and the namespace are, and to
  the same value in any two of them.
\<close>

lemma literal_eval_total:
  "is_literal e \<Longrightarrow> \<exists>v. eval_expr env ns e = Inr v"
  "are_literals es \<Longrightarrow> \<exists>vs. eval_exprs env ns es = Inr vs"
  by (induction e and es rule: is_literal_are_literals.induct) auto

lemma literal_eval_indep:
  "is_literal e \<Longrightarrow> eval_expr env ns e = eval_expr env' ns' e"
  "are_literals es \<Longrightarrow> eval_exprs env ns es = eval_exprs env' ns' es"
  by (induction e and es rule: is_literal_are_literals.induct) (auto split: sum.splits)

lemma literal_stmt_total:
  "is_literal_assign s \<Longrightarrow> \<exists>ns'. exec_stmt env ns s = Inr ns'"
proof (cases s)
  case (Assign x e)
  assume "is_literal_assign s"
  with Assign have "is_literal e" by simp
  then obtain v where "eval_expr env ns e = Inr v"
    using literal_eval_total(1) by blast
  with Assign show ?thesis by simp
qed simp_all

lemma literal_stmt_indep:
  "is_literal_assign s \<Longrightarrow> exec_stmt env ns s = exec_stmt env' ns s"
proof (cases s)
  case (Assign x e)
  assume "is_literal_assign s"
  with Assign have "is_literal e" by simp
  then have "eval_expr env ns e = eval_expr env' ns e"
    by (rule literal_eval_indep(1))
  with Assign show ?thesis by simp
qed simp_all

text \<open>A body of literal assignments runs to its end without raising.\<close>

lemma literal_body_total:
  "literal_assigns_only ss \<Longrightarrow> \<exists>ns'. exec_stmts env ns ss = Inr ns'"
proof (induction ss arbitrary: ns)
  case Nil
  show ?case by simp
next
  case (Cons s ss)
  then obtain ns1 where "exec_stmt env ns s = Inr ns1"
    using literal_stmt_total by fastforce
  moreover from Cons have "\<exists>ns'. exec_stmts env ns1 ss = Inr ns'" by simp
  ultimately show ?case by simp
qed

text \<open>Its result does not depend on the environment it runs in.\<close>

lemma literal_body_indep:
  "literal_assigns_only ss \<Longrightarrow> exec_stmts env ns ss = exec_stmts env' ns ss"
proof (induction ss arbitrary: ns)
  case Nil
  show ?case by simp
next
  case (Cons s ss)
  then have "exec_stmt env ns s = exec_stmt env' ns s"
    using literal_stmt_indep by simp
  with Cons show ?case by (simp split: sum.splits)
qed

section \<open>The bindings of hooks.py\<close>

lemma hooks_literal: "literal_assigns_only hooks"
  by (simp add: hooks_def)

text \<open>The namespace the module evaluates to, in any environment.\<close>

lemma hooks_exec:
  "exec_module env hooks = Inr
     [ ''app_name'' \<mapsto> VStr ''surgishop_workspaces'',
       ''app_title'' \<mapsto> VStr ''SurgiShop Workspaces'',
       ''app_publisher'' \<mapsto> VStr ''SurgiShop'',
       ''app_description'' \<mapsto> VStr ''Custom workspaces for SurgiShop ERPNext'',
       ''app_email'' \<mapsto> VStr ''gary@surgishop.com'',
       ''app_license'' \<mapsto> VStr ''mit'',
       ''required_apps'' \<mapsto> VList [VStr ''erpnext''] ]"
  by (simp add: exec_module_def hooks_def)

lemma hooks_dom:
  "exec_module env hooks = Inr ns \<Longrightarrow>
   dom ns = {''app_name'', ''app_title'', ''app_publisher'', ''app_description'',
             ''app_email'', ''app_license'', ''required_apps''}"
  by (auto simp add: hooks_exec split: if_splits)

text \<open>
  C1. Evaluating \<^verbatim>\<open>hooks.py\<close>, in any environment, succeeds and binds
  \<^verbatim>\<open>app_name\<close> to the string \<^verbatim>\<open>"surgishop_workspaces"\<close>.
\<close>

theorem app_name_value:
  "\<exists>ns. exec_module env hooks = Inr ns \<and>
        ns ''app_name'' = Some (VStr ''surgishop_workspaces'')"
  by (simp add: hooks_exec)

text \<open>
  C2. Evaluating \<^verbatim>\<open>hooks.py\<close> binds \<^verbatim>\<open>required_apps\<close> to the list whose only
  element is the string \<^verbatim>\<open>"erpnext"\<close>.
\<close>

theorem required_apps_value:
  "\<exists>ns. exec_module env hooks = Inr ns \<and>
        ns ''required_apps'' = Some (VList [VStr ''erpnext''])"
  by (simp add: hooks_exec)

text \<open>
  C3. Evaluating \<^verbatim>\<open>hooks.py\<close> defines each of the seven metadata names
  \<^verbatim>\<open>app_name\<close>, \<^verbatim>\<open>app_title\<close>, \<^verbatim>\<open>app_publisher\<close>, \<^verbatim>\<open>app_description\<close>,
  \<^verbatim>\<open>app_email\<close>, \<^verbatim>\<open>app_license\<close> and \<^verbatim>\<open>required_apps\<close> as a binding of the
  module.
\<close>

theorem metadata_names_defined:
  "\<exists>ns. exec_module env hooks = Inr ns \<and>
     ''app_name'' \<in> dom ns \<and> ''app_title'' \<in> dom ns \<and> ''app_publisher'' \<in> dom ns \<and>
     ''app_description'' \<in> dom ns \<and> ''app_email'' \<in> dom ns \<and> ''app_license'' \<in> dom ns \<and>
     ''required_apps'' \<in> dom ns"
  by (simp add: hooks_exec)

text \<open>
  C4. Evaluating \<^verbatim>\<open>hooks.py\<close> defines no hook: the names bound are exactly the seven
  metadata names, none of the names whose assignment is commented out in the file is
  bound, and in particular none of \<^verbatim>\<open>scheduler_events\<close>, \<^verbatim>\<open>doc_events\<close>,
  \<^verbatim>\<open>permission_query_conditions\<close>, \<^verbatim>\<open>has_permission\<close>,
  \<^verbatim>\<open>override_whitelisted_methods\<close>, \<^verbatim>\<open>before_install\<close>, \<^verbatim>\<open>after_install\<close>,
  \<^verbatim>\<open>before_request\<close>, \<^verbatim>\<open>after_request\<close>, \<^verbatim>\<open>before_job\<close>, \<^verbatim>\<open>after_job\<close>,
  \<^verbatim>\<open>user_data_fields\<close>, \<^verbatim>\<open>auth_hooks\<close> is.
\<close>

theorem no_active_hooks:
  "\<exists>ns. exec_module env hooks = Inr ns \<and>
     dom ns = {''app_name'', ''app_title'', ''app_publisher'', ''app_description'',
               ''app_email'', ''app_license'', ''required_apps''} \<and>
     dom ns \<inter> set commented_out_names = {} \<and>
     ''scheduler_events'' \<notin> dom ns \<and> ''doc_events'' \<notin> dom ns \<and>
     ''permission_query_conditions'' \<notin> dom ns \<and> ''has_permission'' \<notin> dom ns \<and>
     ''override_whitelisted_methods'' \<notin> dom ns \<and> ''before_install'' \<notin> dom ns \<and>
     ''after_install'' \<notin> dom ns \<and> ''before_request'' \<notin> dom ns \<and>
     ''after_request'' \<notin> dom ns \<and> ''before_job'' \<notin> dom ns \<and> ''after_job'' \<notin> dom ns \<and>
     ''user_data_fields'' \<notin> dom ns \<and> ''auth_hooks'' \<notin> dom ns"
proof -
  obtain ns where ex: "exec_module env hooks = Inr ns"
    by (simp add: hooks_exec)
  have d: "dom ns = {''app_name'', ''app_title'', ''app_publisher'', ''app_description'',
               ''app_email'', ''app_license'', ''required_apps''}"
    using ex by (rule hooks_dom)
  have c: "dom ns \<inter> set commented_out_names = {}"
    unfolding d commented_out_names_def by simp
  show ?thesis using ex d c by simp
qed

text \<open>
  C5. Evaluating \<^verbatim>\<open>hooks.py\<close> is total. The module is a straight line of seven
  statements, each the assignment of a literal (so none is an import or a call, and
  none reads a name), and in any environment its execution ends in a namespace, never
  in an exception.
\<close>

theorem hooks_evaluation_total:
  "length hooks = 7 \<and> literal_assigns_only hooks \<and> (\<exists>ns. exec_module env hooks = Inr ns)"
proof -
  have n: "length hooks = 7"
    by (simp add: hooks_def)
  have "\<exists>ns. exec_stmts env Map.empty hooks = Inr ns"
    using hooks_literal by (rule literal_body_total)
  then have t: "\<exists>ns. exec_module env hooks = Inr ns"
    by (simp add: exec_module_def)
  from n hooks_literal t show ?thesis by simp
qed

text \<open>
  C6, as stated: every binding of the module is bound to a string. That fails at
  \<^verbatim>\<open>required_apps\<close>, which line 7 binds to a list.
\<close>

theorem all_bindings_strings_counterexample:
  "(\<exists>ns. exec_module \<lparr>builtins = Map.empty, importable = {}\<rparr> hooks = Inr ns \<and>
         ns ''required_apps'' = Some (VList [VStr ''erpnext'']) \<and>
         \<not> str_bound ns ''required_apps'') \<and>
   \<not> (\<forall>env. \<exists>ns. exec_module env hooks = Inr ns \<and> (\<forall>x \<in> dom ns. str_bound ns x))"
proof -
  let ?env = "\<lparr>builtins = Map.empty, importable = {}\<rparr>"
  have a: "\<exists>ns. exec_module ?env hooks = Inr ns \<and>
         ns ''required_apps'' = Some (VList [VStr ''erpnext'']) \<and>
         \<not> str_bound ns ''required_apps''"
    by (simp add: hooks_exec str_bound_def)
  have b: "\<not> (\<forall>env. \<exists>ns. exec_module env hooks = Inr ns \<and> (\<forall>x \<in> dom ns. str_bound ns x))"
  proof
    assume "\<forall>env. \<exists>ns. exec_module env hooks = Inr ns \<and> (\<forall>x \<in> dom ns. str_bound ns x)"
    then obtain ns where ex: "exec_module ?env hooks = Inr ns"
      and all: "\<forall>x \<in> dom ns. str_bound ns x"
      by blast
    from ex have "''required_apps'' \<in> dom ns"
      by (simp add: hooks_dom)
    with all have "str_bound ns ''required_apps''" by blast
    moreover from ex have "ns ''required_apps'' = Some (VList [VStr ''erpnext''])"
      by (auto simp add: hooks_exec)
    ultimately show False by (simp add: str_bound_def)
  qed
  from a b show ?thesis by blast
qed

text \<open>
  C6, amended. Every binding of the module is flat metadata: the module binds exactly
  seven names, of which the six \<^verbatim>\<open>app_name\<close>, \<^verbatim>\<open>app_title\<close>,
  \<^verbatim>\<open>app_publisher\<close>, \<^verbatim>\<open>app_description\<close>, \<^verbatim>\<open>app_email\<close> and \<^verbatim>\<open>app_license\<close>
  are bound to strings and the seventh, \<^verbatim>\<open>required_apps\<close>, is bound to a list of
  strings.
\<close>

theorem metadata_value_types:
  "\<exists>ns. exec_module env hooks = Inr ns \<and>
     dom ns = {''app_name'', ''app_title'', ''app_publisher'', ''app_description'',
               ''app_email'', ''app_license'', ''required_apps''} \<and>
     str_bound ns ''app_name'' \<and> str_bound ns ''app_title'' \<and>
     str_bound ns ''app_publisher'' \<and> str_bound ns ''app_description'' \<and>
     str_bound ns ''app_email'' \<and> str_bound ns ''app_license'' \<and>
     (\<exists>ss. ns ''required_apps'' = Some (VList (map VStr ss)))"
proof -
  obtain ns where ex: "exec_module env hooks = Inr ns"
    and req: "ns ''required_apps'' = Some (VList [VStr ''erpnext''])"
    and strs: "str_bound ns ''app_name''" "str_bound ns ''app_title''"
      "str_bound ns ''app_publisher''" "str_bound ns ''app_description''"
      "str_bound ns ''app_email''" "str_bound ns ''app_license''"
    by (simp add: hooks_exec str_bound_def)
  have "ns ''required_apps'' = Some (VList (map VStr [''erpnext'']))"
    using req by simp
  then have lst: "\<exists>ss. ns ''required_apps'' = Some (VList (map VStr ss))" ..
  have d: "dom ns = {''app_name'', ''app_title'', ''app_publisher'', ''app_description'',
               ''app_email'', ''app_license'', ''required_apps''}"
    using ex by (rule hooks_dom)
  from ex d strs lst show ?thesis by blast
qed

text \<open>
  C7. \<^verbatim>\<open>app_license\<close> is bound to the lowercase string \<^verbatim>\<open>"mit"\<close>, not to
  \<^verbatim>\<open>"MIT"\<close>.
\<close>

theorem app_license_value:
  "\<exists>ns. exec_module env hooks = Inr ns \<and>
        ns ''app_license'' = Some (VStr ''mit'') \<and>
        ns ''app_license'' \<noteq> Some (VStr ''MIT'')"
  by (simp add: hooks_exec)

text \<open>
  C8. The other identity bindings have these values, none of them the empty string:
  \<^verbatim>\<open>app_title\<close> is \<^verbatim>\<open>"SurgiShop Workspaces"\<close>, \<^verbatim>\<open>app_publisher\<close> is
  \<^verbatim>\<open>"SurgiShop"\<close>, \<^verbatim>\<open>app_description\<close> is
  \<^verbatim>\<open>"Custom workspaces for SurgiShop ERPNext"\<close> and \<^verbatim>\<open>app_email\<close> is
  \<^verbatim>\<open>"gary@surgishop.com"\<close>.
\<close>

theorem identity_metadata_values:
  "\<exists>ns. exec_module env hooks = Inr ns \<and>
     ns ''app_title'' = Some (VStr ''SurgiShop Workspaces'') \<and>
     ns ''app_publisher'' = Some (VStr ''SurgiShop'') \<and>
     ns ''app_description'' = Some (VStr ''Custom workspaces for SurgiShop ERPNext'') \<and>
     ns ''app_email'' = Some (VStr ''gary@surgishop.com'') \<and>
     ns ''app_title'' \<noteq> Some (VStr '''') \<and> ns ''app_publisher'' \<noteq> Some (VStr '''') \<and>
     ns ''app_description'' \<noteq> Some (VStr '''') \<and> ns ''app_email'' \<noteq> Some (VStr '''')"
  by (simp add: hooks_exec)

text \<open>
  C9. Evaluation of \<^verbatim>\<open>hooks.py\<close> is deterministic: in any two environments it gives
  the same result, one and the same namespace of bindings.
\<close>

theorem hooks_evaluation_deterministic:
  "exec_module env1 hooks = exec_module env2 hooks \<and>
   (\<exists>ns. exec_module env1 hooks = Inr ns \<and> exec_module env2 hooks = Inr ns)"
proof -
  have eq: "exec_module env1 hooks = exec_module env2 hooks"
    unfolding exec_module_def using hooks_literal by (rule literal_body_indep)
  have "\<exists>ns. exec_stmts env1 Map.empty hooks = Inr ns"
    using hooks_literal by (rule literal_body_total)
  then obtain ns where r1: "exec_module env1 hooks = Inr ns"
    by (auto simp add: exec_module_def)
  with eq have r2: "exec_module env2 hooks = Inr ns" by simp
  from eq r1 r2 show ?thesis by blast
qed

end
